theory Spec2Isabelle
  imports Main "HOL-Library.AList" "HOL-Library.Char_ord" "HOL-Library.List_Lexorder"
    "HOL-Library.Option_ord" "HOL-Library.Product_Lexorder"
begin

section \<open>Strings of the wire protocol\<close>

text \<open>
  The protocol is ASCII text. A Python \<open>str\<close> is modelled as a \<open>string\<close>, one
  \<open>char\<close> per character; \<open>upper\<close> and \<open>lower\<close> act on the ASCII letters.
\<close>

definition CRLF :: string where
  "CRLF = [CHR 0x0D, CHR 0x0A]"

text \<open>\<open>str.split(' ')\<close>: cut at every single space, empty pieces kept.\<close>

fun split_sp :: "string \<Rightarrow> string list" where
  "split_sp [] = [[]]"
| "split_sp (c # cs) =
     (if c = CHR '' '' then [] # split_sp cs
      else (case split_sp cs of [] \<Rightarrow> [[c]] | p # ps \<Rightarrow> (c # p) # ps))"

text \<open>The characters \<open>str.isspace\<close> accepts among the first 256 code points.\<close>

definition isspace :: "char \<Rightarrow> bool" where
  "isspace c = (of_char c \<in> {9, 10, 11, 12, 13, 28, 29, 30, 31, 32, 133, 160 :: nat})"

text \<open>\<open>str.split()\<close>: cut at runs of whitespace, no empty pieces.\<close>

fun split_ws_aux :: "string \<Rightarrow> string \<Rightarrow> string list" where
  "split_ws_aux cur [] = (if cur = [] then [] else [rev cur])"
| "split_ws_aux cur (c # cs) =
     (if isspace c then (if cur = [] then split_ws_aux [] cs else rev cur # split_ws_aux [] cs)
      else split_ws_aux (c # cur) cs)"

definition split_ws :: "string \<Rightarrow> string list" where
  "split_ws s = split_ws_aux [] s"

text \<open>\<open>str.strip()\<close>.\<close>

definition strip :: "string \<Rightarrow> string" where
  "strip s = rev (dropWhile isspace (rev (dropWhile isspace s)))"

definition upper_char :: "char \<Rightarrow> char" where
  "upper_char c =
     (let n = (of_char c :: nat) in if 97 \<le> n \<and> n \<le> 122 then char_of (n - 32) else c)"

definition lower_char :: "char \<Rightarrow> char" where
  "lower_char c =
     (let n = (of_char c :: nat) in if 65 \<le> n \<and> n \<le> 90 then char_of (n + 32) else c)"

definition upper :: "string \<Rightarrow> string" where
  "upper s = map upper_char s"

definition lower :: "string \<Rightarrow> string" where
  "lower s = map lower_char s"

text \<open>\<open>str(n)\<close> for a length: the decimal digits of a natural number.\<close>

fun str_of_nat :: "nat \<Rightarrow> string" where
  "str_of_nat n =
     (if n < 10 then [''0123456789'' ! n]
      else str_of_nat (n div 10) @ [''0123456789'' ! (n mod 10)])"

declare str_of_nat.simps [simp del]

section \<open>The asynchronous server: \<open>server/client_manager.py\<close>\<close>

text \<open>
  A \<open>StreamWriter\<close> object is known by its identity, a natural number. The clock
  \<open>datetime.now()\<close> is an argument \<open>now\<close> of the operations that read it.
\<close>

record client_info =
  id_of :: nat
  email :: string
  writer :: nat
  status :: string
  connected_at :: nat
  last_activity :: nat

text \<open>
  \<open>clients\<close> is a dictionary whose iteration order (that of insertion) is read by
  \<open>disconnect_client\<close> and \<open>get_online_contacts\<close>: an association list.
  \<open>email_to_client\<close> is only looked up, stored to and deleted from: a map.
\<close>

record ClientManager =
  clients :: "(nat \<times> client_info) list"
  email_to_client :: "string \<rightharpoonup> nat"
  next_client_id :: nat

definition ClientManager_init :: ClientManager where
  "ClientManager_init = \<lparr>clients = [], email_to_client = Map.empty, next_client_id = 1\<rparr>"

definition add_client :: "nat \<Rightarrow> nat \<Rightarrow> string \<Rightarrow> ClientManager \<Rightarrow> nat \<times> ClientManager" where
  "add_client now w e cm =
     (let client_id = next_client_id cm;
          info = \<lparr>id_of = client_id, email = e, writer = w, status = ''NLN'',
                  connected_at = now, last_activity = now\<rparr>
      in (client_id,
          \<lparr>clients = AList.update client_id info (clients cm),
           email_to_client = (email_to_client cm)(e \<mapsto> client_id),
           next_client_id = next_client_id cm + 1\<rparr>))"

text \<open>
  The loop of \<open>disconnect_client\<close> stops at the first entry with the writer;
  \<open>if client_to_remove:\<close> is false for \<open>None\<close> and for the id 0.
\<close>

definition disconnect_client :: "nat \<Rightarrow> ClientManager \<Rightarrow> ClientManager" where
  "disconnect_client w cm =
     (case find (\<lambda>(client_id, info). writer info = w) (clients cm) of
        None \<Rightarrow> cm
      | Some (client_to_remove, info) \<Rightarrow>
          if client_to_remove = 0 then cm
          else cm\<lparr>clients := AList.delete client_to_remove (clients cm),
                  email_to_client := (email_to_client cm)(email info := None)\<rparr>)"

definition get_client_by_id :: "ClientManager \<Rightarrow> nat \<Rightarrow> client_info option" where
  "get_client_by_id cm client_id = map_of (clients cm) client_id"

definition get_client_by_email :: "ClientManager \<Rightarrow> string \<Rightarrow> client_info option" where
  "get_client_by_email cm e =
     (case email_to_client cm e of
        None \<Rightarrow> None
      | Some client_id \<Rightarrow> if client_id = 0 then None else map_of (clients cm) client_id)"

definition update_client_status :: "nat \<Rightarrow> nat \<Rightarrow> string \<Rightarrow> ClientManager \<Rightarrow> ClientManager" where
  "update_client_status now client_id st cm =
     (case map_of (clients cm) client_id of
        None \<Rightarrow> cm
      | Some info \<Rightarrow>
          cm\<lparr>clients := AList.update client_id (info\<lparr>status := st, last_activity := now\<rparr>)
                           (clients cm)\<rparr>)"

text \<open>The result is a list of the dictionaries \<open>{'email': .., 'status': ..}\<close>, as pairs.\<close>

definition get_online_contacts :: "ClientManager \<Rightarrow> string \<Rightarrow> (string \<times> string) list" where
  "get_online_contacts cm e =
     map (\<lambda>info. (email info, status info))
       (filter (\<lambda>info. email info \<noteq> e \<and> status info \<noteq> ''HDN'') (map snd (clients cm)))"

section \<open>The asynchronous server: \<open>utils/database.py\<close>\<close>

text \<open>
  A table is the list of its rows in rowid order. The columns that SQLite fills by
  default and the server never reads (\<open>id\<close>, \<open>created_at\<close>, \<open>added_at\<close>) are left
  out. A nullable column is an \<open>option\<close>.

  Every method opens a connection of its own. \<open>add_contact\<close> does not close its
  connection when the \<open>INSERT\<close> raises \<open>IntegrityError\<close>: the connection stays open, with
  the transaction it began and the write lock of the file, until the interpreter's
  garbage collection finalises it. \<open>write_locked\<close> says that such a connection is
  open. Reading is not hindered by it; an \<open>INSERT\<close> or \<open>DELETE\<close> of another connection
  waits for its timeout and raises \<open>OperationalError\<close> (database is locked).
\<close>

record user_row =
  user_email :: string
  password :: string
  display_name :: "string option"

record contact_row =
  owner_email :: string
  contact_email :: string
  nickname :: "string option"
  list_type :: "string option"

record DatabaseManager =
  users :: "user_row list"
  contacts :: "contact_row list"
  write_locked :: bool

definition get_user_by_email :: "DatabaseManager \<Rightarrow> string \<Rightarrow> user_row option" where
  "get_user_by_email d e = find (\<lambda>u. user_email u = e) (users d)"

text \<open>
  The owner is \<open>self.email\<close> of the handler, which is \<open>None\<close> before phase 1 of
  \<open>USR\<close>: \<open>owner_email = NULL\<close> selects no row, and inserting \<open>NULL\<close> into the
  \<open>NOT NULL\<close> column raises \<open>IntegrityError\<close>.

  The \<open>SELECT\<close> of \<open>get_user_contacts\<close> has no \<open>ORDER BY\<close>. SQLite answers it through
  the index of \<open>UNIQUE(owner_email, contact_email, list_type)\<close>, so the rows of an owner
  come back in the order of that index: ascending by \<open>contact_email\<close>, then by
  \<open>list_type\<close> (strings compared byte by byte, \<open>NULL\<close> before every string), rows equal
  in both in rowid order.
\<close>

definition index_key :: "contact_row \<Rightarrow> string \<times> string option" where
  "index_key r = (contact_email r, list_type r)"

definition get_user_contacts :: "DatabaseManager \<Rightarrow> string option \<Rightarrow> contact_row list" where
  "get_user_contacts d e =
     sort_key index_key (filter (\<lambda>r. Some (owner_email r) = e) (contacts d))"

definition contact_key :: "string option \<Rightarrow> string \<Rightarrow> string \<Rightarrow> contact_row \<Rightarrow> bool" where
  "contact_key owner peer lt r =
     (Some (owner_email r) = owner \<and> contact_email r = peer \<and> list_type r = Some lt)"

text \<open>
  \<open>add_contact\<close> and \<open>remove_contact\<close> return \<open>None\<close> where the Python raises
  \<open>OperationalError\<close>; \<open>add_contact\<close> catches \<open>IntegrityError\<close> only. The lock is
  asked for before the constraints are looked at.
\<close>

definition add_contact ::
  "DatabaseManager \<Rightarrow> string option \<Rightarrow> string \<Rightarrow> string \<Rightarrow> string
     \<Rightarrow> (bool \<times> DatabaseManager) option" where
  "add_contact d owner peer nick lt =
     (if write_locked d then None
      else
        (case owner of
           None \<Rightarrow> Some (False, d\<lparr>write_locked := True\<rparr>)
         | Some own \<Rightarrow>
             if \<exists>r \<in> set (contacts d). contact_key owner peer lt r
             then Some (False, d\<lparr>write_locked := True\<rparr>)
             else Some (True, d\<lparr>contacts := contacts d @
                     [\<lparr>owner_email = own, contact_email = peer, nickname = Some nick,
                       list_type = Some lt\<rparr>]\<rparr>)))"

definition remove_contact ::
  "DatabaseManager \<Rightarrow> string option \<Rightarrow> string \<Rightarrow> string \<Rightarrow> DatabaseManager option" where
  "remove_contact d owner peer lt =
     (if write_locked d then None
      else Some (d\<lparr>contacts := filter (\<lambda>r. \<not> contact_key owner peer lt r) (contacts d)\<rparr>))"

text \<open>
  The garbage collection of the interpreter finalises a connection that was left open:
  its transaction is rolled back and the lock is given up.
\<close>

definition collect_garbage :: "DatabaseManager \<Rightarrow> DatabaseManager" where
  "collect_garbage d = d\<lparr>write_locked := False\<rparr>"

section \<open>The asynchronous server: \<open>server/protocol_handler.py\<close>\<close>

text \<open>
  What a handler reads from outside the program is a parameter: the clock, the string of
  \<open>uuid.uuid4()\<close>, and for \<open>MSG\<close> the payload that \<open>reader.read(int(parts[3]))\<close>
  decodes (\<open>None\<close> when \<open>int\<close> or the decoding raises). The class \<open>MessageRouter\<close> of
  \<open>server/message_router.py\<close> is not among the sources: the lines its
  \<open>broadcast_status_change\<close> hands to writers are a parameter too.
\<close>

record runtime =
  clock :: nat
  uuid4 :: string
  read_payload :: "string \<Rightarrow> string option"
  broadcast_status_change :: "ClientManager \<Rightarrow> string option \<Rightarrow> string \<Rightarrow> (nat \<times> string) list"

record MSNPProtocolHandler =
  self_writer :: nat
  self_client_id :: "nat option"
  self_email :: "string option"
  self_transaction_id :: nat
  self_authenticated :: bool
  self_protocol_version :: "string option"

definition MSNPProtocolHandler_init :: "nat \<Rightarrow> MSNPProtocolHandler" where
  "MSNPProtocolHandler_init w =
     \<lparr>self_writer = w, self_client_id = None, self_email = None, self_transaction_id = 0,
      self_authenticated = False, self_protocol_version = None\<rparr>"

text \<open>
  The shared objects of the process: the client manager, the database, and for every
  writer the strings written to it, oldest first, and whether it has been closed.
\<close>

record world =
  client_manager :: ClientManager
  db_manager :: DatabaseManager
  written :: "nat \<Rightarrow> string list"
  closed :: "nat set"

definition write_to :: "nat \<Rightarrow> string \<Rightarrow> world \<Rightarrow> world" where
  "write_to w s wd = wd\<lparr>written := (written wd)(w := written wd w @ [s])\<rparr>"

definition send_response :: "MSNPProtocolHandler \<Rightarrow> string \<Rightarrow> world \<Rightarrow> world" where
  "send_response h response wd = write_to (self_writer h) response wd"

definition send_error :: "MSNPProtocolHandler \<Rightarrow> string \<Rightarrow> string \<Rightarrow> world \<Rightarrow> world" where
  "send_error h transaction_id error_code wd =
     send_response h (error_code @ '' '' @ transaction_id @ CRLF) wd"

text \<open>An f-string prints \<open>None\<close> for a \<open>NULL\<close> column.\<close>

definition fmt :: "string option \<Rightarrow> string" where
  "fmt v = (case v of None \<Rightarrow> ''None'' | Some s \<Rightarrow> s)"

definition supported_versions :: "string list" where
  "supported_versions =
     [''MSNP21'', ''MSNP20'', ''MSNP19'', ''MSNP18'', ''MSNP15'', ''MSNP12'', ''MSNP11'',
      ''MSNP10'', ''MSNP9'', ''MSNP8'']"

definition select_version :: "string list \<Rightarrow> string list \<Rightarrow> string option" where
  "select_version order client_versions = find (\<lambda>version. version \<in> set client_versions) order"

definition handle_ver ::
  "MSNPProtocolHandler \<Rightarrow> world \<Rightarrow> string list \<Rightarrow> string \<Rightarrow> MSNPProtocolHandler \<times> world" where
  "handle_ver h wd parts transaction_id =
     (let client_versions = drop 2 parts;
          selected_version =
            (case select_version supported_versions client_versions of
               None \<Rightarrow> ''MSNP8'' | Some version \<Rightarrow> version)
      in (h\<lparr>self_protocol_version := Some selected_version\<rparr>,
          send_response h (''VER '' @ transaction_id @ '' '' @ selected_version @ CRLF) wd))"

definition handle_cvr ::
  "MSNPProtocolHandler \<Rightarrow> world \<Rightarrow> string list \<Rightarrow> string \<Rightarrow> MSNPProtocolHandler \<times> world" where
  "handle_cvr h wd parts transaction_id =
     (h, send_response h
           (''CVR '' @ transaction_id @ '' 8.5.1302 8.5.1302 8.5.1302 http://messenger.msn.com'' @ CRLF)
           wd)"

definition handle_usr ::
  "runtime \<Rightarrow> MSNPProtocolHandler \<Rightarrow> world \<Rightarrow> string list \<Rightarrow> string \<Rightarrow> MSNPProtocolHandler \<times> world" where
  "handle_usr rt h wd parts transaction_id =
     (if length parts < 4 then (h, send_error h transaction_id ''911'' wd)
      else if parts ! 2 = ''I'' then
        (h\<lparr>self_email := Some (parts ! 3)\<rparr>,
         send_response h (''USR '' @ transaction_id @ '' S '' @ uuid4 rt @ CRLF) wd)
      else if parts ! 2 = ''S'' then
        (case self_email h of
           None \<Rightarrow> (h, wd)
         | Some e \<Rightarrow>
             if e = [] then (h, wd)
             else (case get_user_by_email (db_manager wd) e of
                     None \<Rightarrow> (h, send_error h transaction_id ''911'' wd)
                   | Some user \<Rightarrow>
                       (let (client_id, cm') = add_client (clock rt) (self_writer h) e (client_manager wd);
                            h' = h\<lparr>self_authenticated := True, self_client_id := Some client_id\<rparr>
                        in (h', send_response h'
                                  (''USR '' @ transaction_id @ '' OK '' @ e @ '' '' @ e @ '' 1 0'' @ CRLF)
                                  (wd\<lparr>client_manager := cm'\<rparr>)))))
      else (h, wd))"

definition lst_line :: "contact_row \<Rightarrow> string" where
  "lst_line contact =
     ''LST '' @ contact_email contact @ '' '' @ fmt (nickname contact) @ '' ''
       @ fmt (list_type contact) @ CRLF"

definition handle_syn ::
  "MSNPProtocolHandler \<Rightarrow> world \<Rightarrow> string list \<Rightarrow> string \<Rightarrow> MSNPProtocolHandler \<times> world" where
  "handle_syn h wd parts transaction_id =
     (if \<not> self_authenticated h then (h, send_error h transaction_id ''911'' wd)
      else
        (let rows = get_user_contacts (db_manager wd) (self_email h);
             wd1 = fold (\<lambda>contact. send_response h (lst_line contact)) rows wd
         in (h, send_response h
                  (''SYN '' @ transaction_id @ '' '' @ str_of_nat (length rows) @ '' 0'' @ CRLF)
                  wd1)))"

definition handle_chg ::
  "runtime \<Rightarrow> MSNPProtocolHandler \<Rightarrow> world \<Rightarrow> string list \<Rightarrow> string \<Rightarrow> MSNPProtocolHandler \<times> world" where
  "handle_chg rt h wd parts transaction_id =
     (if \<not> self_authenticated h then (h, send_error h transaction_id ''911'' wd)
      else if 3 \<le> length parts then
        (let st = parts ! 2;
             cm' = (case self_client_id h of
                      None \<Rightarrow> client_manager wd
                    | Some client_id \<Rightarrow> update_client_status (clock rt) client_id st (client_manager wd));
             wd1 = fold (\<lambda>(w, line). write_to w line)
                     (broadcast_status_change rt cm' (self_email h) st) (wd\<lparr>client_manager := cm'\<rparr>)
         in (h, send_response h (''CHG '' @ transaction_id @ '' '' @ st @ '' 0'' @ CRLF) wd1))
      else (h, wd))"

text \<open>
  \<open>handle_msg\<close> returns \<open>None\<close> where the Python raises (the connection loop then
  ends); the text it extracts from the payload is not used afterwards.
\<close>

definition handle_msg ::
  "runtime \<Rightarrow> MSNPProtocolHandler \<Rightarrow> world \<Rightarrow> string list \<Rightarrow> string
     \<Rightarrow> (MSNPProtocolHandler \<times> world) option" where
  "handle_msg rt h wd parts transaction_id =
     (if \<not> self_authenticated h then Some (h, send_error h transaction_id ''911'' wd)
      else if 4 \<le> length parts then
        (case read_payload rt (parts ! 3) of
           None \<Rightarrow> None
         | Some payload \<Rightarrow> Some (h, send_response h (''MSG '' @ transaction_id @ '' OK'' @ CRLF) wd))
      else Some (h, wd))"

definition handle_cal ::
  "runtime \<Rightarrow> MSNPProtocolHandler \<Rightarrow> world \<Rightarrow> string list \<Rightarrow> string \<Rightarrow> MSNPProtocolHandler \<times> world" where
  "handle_cal rt h wd parts transaction_id =
     (if 3 \<le> length parts then
        (h, send_response h (''CAL '' @ transaction_id @ '' RINGING '' @ uuid4 rt @ CRLF) wd)
      else (h, wd))"

definition handle_ans ::
  "MSNPProtocolHandler \<Rightarrow> world \<Rightarrow> string list \<Rightarrow> string \<Rightarrow> MSNPProtocolHandler \<times> world" where
  "handle_ans h wd parts transaction_id =
     (h, send_response h (''ANS '' @ transaction_id @ '' OK'' @ CRLF) wd)"

text \<open>
  \<open>handle_add\<close> does not look at what \<open>add_contact\<close> returns: the reply is the same
  whether the row was inserted or not. Where the store raises, \<open>handle_add\<close> and
  \<open>handle_rem\<close> raise (\<open>None\<close>) before anything is written.
\<close>

definition handle_add ::
  "MSNPProtocolHandler \<Rightarrow> world \<Rightarrow> string list \<Rightarrow> string
     \<Rightarrow> (MSNPProtocolHandler \<times> world) option" where
  "handle_add h wd parts transaction_id =
     (if 5 \<le> length parts then
        (let lt = parts ! 2; e = parts ! 3; nick = parts ! 4 in
         case add_contact (db_manager wd) (self_email h) e nick lt of
           None \<Rightarrow> None
         | Some (inserted, d') \<Rightarrow>
             Some (h, send_response h
                        (''ADD '' @ transaction_id @ '' '' @ lt @ '' '' @ e @ '' '' @ nick @ CRLF)
                        (wd\<lparr>db_manager := d'\<rparr>)))
      else Some (h, wd))"

definition handle_rem ::
  "MSNPProtocolHandler \<Rightarrow> world \<Rightarrow> string list \<Rightarrow> string
     \<Rightarrow> (MSNPProtocolHandler \<times> world) option" where
  "handle_rem h wd parts transaction_id =
     (if 4 \<le> length parts then
        (let lt = parts ! 2; e = parts ! 3 in
         case remove_contact (db_manager wd) (self_email h) e lt of
           None \<Rightarrow> None
         | Some d' \<Rightarrow>
             Some (h, send_response h (''REM '' @ transaction_id @ '' '' @ lt @ '' '' @ e @ CRLF)
                        (wd\<lparr>db_manager := d'\<rparr>)))
      else Some (h, wd))"

definition handle_lst ::
  "MSNPProtocolHandler \<Rightarrow> world \<Rightarrow> string list \<Rightarrow> string \<Rightarrow> MSNPProtocolHandler \<times> world" where
  "handle_lst h wd parts transaction_id =
     (h, fold (\<lambda>contact. send_response h (lst_line contact))
           (get_user_contacts (db_manager wd) (self_email h)) wd)"

definition handle_out ::
  "MSNPProtocolHandler \<Rightarrow> world \<Rightarrow> string list \<Rightarrow> string \<Rightarrow> MSNPProtocolHandler \<times> world" where
  "handle_out h wd parts transaction_id =
     (h, send_response h (''OUT'' @ CRLF) (wd\<lparr>client_manager := disconnect_client (self_writer h) (client_manager wd)\<rparr>))"

definition handle_png ::
  "MSNPProtocolHandler \<Rightarrow> world \<Rightarrow> string list \<Rightarrow> string \<Rightarrow> MSNPProtocolHandler \<times> world" where
  "handle_png h wd parts transaction_id = (h, send_response h (''QNG 60'' @ CRLF) wd)"

definition handle_qng ::
  "MSNPProtocolHandler \<Rightarrow> world \<Rightarrow> string list \<Rightarrow> string \<Rightarrow> MSNPProtocolHandler \<times> world" where
  "handle_qng h wd parts transaction_id = (h, wd)"

text \<open>
  \<open>process_command\<close>: a message of fewer than two space-separated parts returns at once;
  a verb outside the table is only logged.
\<close>

definition process_command ::
  "runtime \<Rightarrow> MSNPProtocolHandler \<Rightarrow> world \<Rightarrow> string \<Rightarrow> (MSNPProtocolHandler \<times> world) option" where
  "process_command rt h wd message =
     (let parts = split_sp message in
      if length parts < 2 then Some (h, wd)
      else
        (let command = parts ! 0; transaction_id = parts ! 1 in
         if command = ''VER'' then Some (handle_ver h wd parts transaction_id)
         else if command = ''CVR'' then Some (handle_cvr h wd parts transaction_id)
         else if command = ''USR'' then Some (handle_usr rt h wd parts transaction_id)
         else if command = ''SYN'' then Some (handle_syn h wd parts transaction_id)
         else if command = ''CHG'' then Some (handle_chg rt h wd parts transaction_id)
         else if command = ''MSG'' then handle_msg rt h wd parts transaction_id
         else if command = ''ADD'' then handle_add h wd parts transaction_id
         else if command = ''REM'' then handle_rem h wd parts transaction_id
         else if command = ''LST'' then Some (handle_lst h wd parts transaction_id)
         else if command = ''CAL'' then Some (handle_cal rt h wd parts transaction_id)
         else if command = ''ANS'' then Some (handle_ans h wd parts transaction_id)
         else if command = ''OUT'' then Some (handle_out h wd parts transaction_id)
         else if command = ''PNG'' then Some (handle_png h wd parts transaction_id)
         else if command = ''QNG'' then Some (handle_qng h wd parts transaction_id)
         else Some (h, wd)))"

text \<open>
  One turn of the loop of \<open>handle_connection\<close> on a line that was read: the line is
  stripped, an empty one is skipped. \<open>None\<close> is the \<open>break\<close> after an exception.
\<close>

definition handle_line ::
  "runtime \<Rightarrow> MSNPProtocolHandler \<Rightarrow> world \<Rightarrow> string \<Rightarrow> (MSNPProtocolHandler \<times> world) option" where
  "handle_line rt h wd data =
     (let message = strip data in
      if message = [] then Some (h, wd) else process_command rt h wd message)"

text \<open>The \<open>finally\<close> of \<open>MSNPServer.handle_client\<close> in \<open>server/msnp_server.py\<close>.\<close>

definition close_connection :: "MSNPProtocolHandler \<Rightarrow> world \<Rightarrow> world" where
  "close_connection h wd =
     wd\<lparr>client_manager := disconnect_client (self_writer h) (client_manager wd),
        closed := insert (self_writer h) (closed wd)\<rparr>"

section \<open>The threaded server: \<open>msn_messenger_server.py\<close>\<close>

text \<open>
  The tables of \<open>database/msn_messenger.db\<close>, as lists of rows in rowid order, with
  the columns the server reads or writes. Sockets are known by a number; what was sent
  on each and which are closed is part of the server's state. The dictionary
  \<open>client_info\<close> of a connection is shared by reference between its thread and
  \<open>self.clients\<close>: a handler takes its value and returns the changed one, and
  \<open>recv\<close> below stores it back under the client's id.
\<close>

record users_row =
  uid :: nat
  u_email :: string
  u_password :: string
  u_display_name :: "string option"

record contacts_row =
  c_user_id :: "nat option"
  c_contact_email :: "string option"
  c_contact_name :: "string option"
  c_list_type :: "string option"

record messages_row =
  from_user :: "string option"
  to_user :: "string option"
  message_text :: string

record conn_info =
  ci_socket :: nat
  ci_id :: nat
  ci_authenticated :: bool
  ci_email :: "string option"
  ci_transaction_id :: nat
  ci_version :: "string option"
  ci_status :: string
  ci_challenge :: "string option"
  ci_username :: "string option"

record MSNPServer =
  srv_clients :: "(nat \<times> conn_info) list"
  client_counter :: nat
  tbl_users :: "users_row list"
  tbl_contacts :: "contacts_row list"
  tbl_messages :: "messages_row list"
  sock_sent :: "nat \<Rightarrow> string list"
  sock_closed :: "nat set"

text \<open>
  Library calls are parameters: the string \<open>generate_challenge\<close> draws at random,
  \<open>hashlib.md5(s.encode()).hexdigest()\<close>, and \<open>int(s)\<close> (\<open>None\<close> for
  \<open>ValueError\<close>).
\<close>

record srv_runtime =
  generate_challenge :: string
  md5_hexdigest :: "string \<Rightarrow> string"
  py_int :: "string \<Rightarrow> int option"

definition supported_versions_srv :: "string list" where
  "supported_versions_srv = [''MSNP2'', ''MSNP3'', ''MSNP4'', ''MSNP5'', ''MSNP6'', ''MSNP7'']"

text \<open>\<open>socket.send\<close> on a closed socket raises; every caller catches that.\<close>

definition sock_send :: "nat \<Rightarrow> string \<Rightarrow> MSNPServer \<Rightarrow> MSNPServer" where
  "sock_send sk s srv =
     (if sk \<in> sock_closed srv then srv
      else srv\<lparr>sock_sent := (sock_sent srv)(sk := sock_sent srv sk @ [s])\<rparr>)"

definition send_response_srv :: "conn_info \<Rightarrow> string \<Rightarrow> MSNPServer \<Rightarrow> MSNPServer" where
  "send_response_srv ci response srv = sock_send (ci_socket ci) response srv"

definition send_error_srv :: "conn_info \<Rightarrow> string \<Rightarrow> MSNPServer \<Rightarrow> MSNPServer" where
  "send_error_srv ci error_code srv = send_response_srv ci (error_code @ CRLF) srv"

text \<open>\<open>email.split('@')[0]\<close>.\<close>

definition before_at :: "string \<Rightarrow> string" where
  "before_at e = takeWhile (\<lambda>c. c \<noteq> CHR ''@'') e"

definition get_display_name :: "MSNPServer \<Rightarrow> string \<Rightarrow> string" where
  "get_display_name srv e =
     (case find (\<lambda>u. u_email u = e) (tbl_users srv) of
        None \<Rightarrow> before_at e
      | Some u \<Rightarrow> (case u_display_name u of
                     None \<Rightarrow> before_at e
                   | Some n \<Rightarrow> if n = [] then before_at e else n))"

definition authenticate_user :: "srv_runtime \<Rightarrow> MSNPServer \<Rightarrow> string \<Rightarrow> string \<Rightarrow> string \<Rightarrow> bool" where
  "authenticate_user rt srv username client_hash challenge =
     (case find (\<lambda>u. u_email u = username) (tbl_users srv) of
        None \<Rightarrow> False
      | Some u \<Rightarrow>
          (let password_hash = md5_hexdigest rt (u_password u);
               expected_hash = md5_hexdigest rt (password_hash @ challenge)
           in lower client_hash = lower expected_hash))"

text \<open>
  \<open>get_user_contacts\<close> joins the contacts with the one user of the email. A row whose
  name is \<open>NULL\<close> or empty takes the name from its email; if that email is \<open>NULL\<close>
  too, \<open>split\<close> raises and the method returns the empty list.
\<close>

definition user_id_of :: "MSNPServer \<Rightarrow> string \<Rightarrow> nat option" where
  "user_id_of srv e = map_option uid (find (\<lambda>u. u_email u = e) (tbl_users srv))"

definition falsy :: "string option \<Rightarrow> bool" where
  "falsy v = (v = None \<or> v = Some [])"

definition get_user_contacts_srv ::
  "MSNPServer \<Rightarrow> string \<Rightarrow> (string option \<times> string \<times> string option) list" where
  "get_user_contacts_srv srv e =
     (case user_id_of srv e of
        None \<Rightarrow> []
      | Some i \<Rightarrow>
          (let results = filter (\<lambda>r. c_user_id r = Some i) (tbl_contacts srv) in
           if \<exists>r \<in> set results. falsy (c_contact_name r) \<and> c_contact_email r = None then []
           else map (\<lambda>r. (c_contact_email r,
                          (if falsy (c_contact_name r) then before_at (the (c_contact_email r))
                           else the (c_contact_name r)),
                          c_list_type r)) results))"

definition store_message :: "string option \<Rightarrow> string option \<Rightarrow> string \<Rightarrow> MSNPServer \<Rightarrow> MSNPServer" where
  "store_message f t m srv =
     srv\<lparr>tbl_messages := tbl_messages srv @ [\<lparr>from_user = f, to_user = t, message_text = m\<rparr>]\<rparr>"

text \<open>
  The contacts table has no uniqueness constraint besides its rowid, so
  \<open>INSERT OR REPLACE\<close> always inserts.
\<close>

definition add_contact_srv :: "string \<Rightarrow> string \<Rightarrow> string \<Rightarrow> string \<Rightarrow> MSNPServer \<Rightarrow> MSNPServer" where
  "add_contact_srv owner peer name lt srv =
     (case user_id_of srv owner of
        None \<Rightarrow> srv
      | Some i \<Rightarrow>
          srv\<lparr>tbl_contacts := tbl_contacts srv @
                [\<lparr>c_user_id = Some i, c_contact_email = Some peer,
                  c_contact_name = Some name, c_list_type = Some lt\<rparr>]\<rparr>)"

definition remove_contact_srv :: "string \<Rightarrow> string \<Rightarrow> string \<Rightarrow> MSNPServer \<Rightarrow> MSNPServer" where
  "remove_contact_srv owner peer lt srv =
     (case user_id_of srv owner of
        None \<Rightarrow> srv
      | Some i \<Rightarrow>
          srv\<lparr>tbl_contacts :=
                filter (\<lambda>r. \<not> (c_user_id r = Some i \<and> c_contact_email r = Some peer
                                \<and> c_list_type r = Some lt))
                  (tbl_contacts srv)\<rparr>)"

definition send_initial_presence :: "conn_info \<Rightarrow> MSNPServer \<Rightarrow> MSNPServer" where
  "send_initial_presence ci srv =
     send_response_srv ci
       (''NLN '' @ ci_status ci @ '' '' @ fmt (ci_email ci) @ '' ''
          @ get_display_name srv (fmt (ci_email ci)) @ CRLF) srv"

definition status_message :: "MSNPServer \<Rightarrow> conn_info \<Rightarrow> string" where
  "status_message srv ci =
     ''NLN '' @ ci_status ci @ '' '' @ fmt (ci_email ci) @ '' ''
       @ get_display_name srv (fmt (ci_email ci)) @ CRLF"

text \<open>The clients the loop of \<open>broadcast_status_change\<close> sends to, in its order.\<close>

definition broadcast_targets :: "MSNPServer \<Rightarrow> conn_info \<Rightarrow> conn_info list" where
  "broadcast_targets srv ci =
     map snd (filter (\<lambda>(other_client_id, other_client).
                        other_client_id \<noteq> ci_id ci \<and> ci_authenticated other_client)
                (srv_clients srv))"

definition broadcast_status_change_srv :: "conn_info \<Rightarrow> MSNPServer \<Rightarrow> MSNPServer" where
  "broadcast_status_change_srv ci srv =
     fold (\<lambda>other_client. sock_send (ci_socket other_client) (status_message srv ci))
       (broadcast_targets srv ci) srv"

definition forward_message :: "string \<Rightarrow> string \<Rightarrow> string \<Rightarrow> MSNPServer \<Rightarrow> MSNPServer" where
  "forward_message f t m srv =
     fold (\<lambda>client. sock_send (ci_socket client)
                       (''MSG '' @ f @ '' '' @ get_display_name srv f @ '' ''
                          @ str_of_nat (length m) @ CRLF @ m))
       (filter (\<lambda>client. ci_authenticated client \<and> ci_email client = Some t)
          (map snd (srv_clients srv))) srv"

definition handle_ver_command :: "conn_info \<Rightarrow> MSNPServer \<Rightarrow> string list \<Rightarrow> conn_info \<times> MSNPServer" where
  "handle_ver_command ci srv parts =
     (if length parts < 3 then (ci, send_error_srv ci ''501'' srv)
      else
        (let transaction_id = parts ! 1;
             client_versions = drop 2 parts;
             supported_version =
               (case select_version (rev supported_versions_srv) client_versions of
                  None \<Rightarrow> ''MSNP7'' | Some version \<Rightarrow> version)
         in (ci\<lparr>ci_version := Some supported_version\<rparr>,
             send_response_srv ci (''VER '' @ transaction_id @ '' '' @ supported_version @ CRLF) srv)))"

definition handle_cvr_command :: "conn_info \<Rightarrow> MSNPServer \<Rightarrow> string list \<Rightarrow> conn_info \<times> MSNPServer" where
  "handle_cvr_command ci srv parts =
     (if length parts < 8 then (ci, send_error_srv ci ''501'' srv)
      else (ci, send_response_srv ci
                  (''CVR '' @ parts ! 1
                     @ '' 7.0.0816 7.0.0816 7.0.0816 http://messenger.msn.com http://messenger.msn.com''
                     @ CRLF) srv))"

definition handle_usr_command ::
  "srv_runtime \<Rightarrow> conn_info \<Rightarrow> MSNPServer \<Rightarrow> string list \<Rightarrow> conn_info \<times> MSNPServer" where
  "handle_usr_command rt ci srv parts =
     (if length parts < 4 then (ci, send_error_srv ci ''501'' srv)
      else
        (let transaction_id = parts ! 1; auth_type = parts ! 2 in
         if auth_type = ''MD5'' \<and> length parts = 4 then
           (let username = parts ! 3; challenge = generate_challenge rt in
            (ci\<lparr>ci_challenge := Some challenge, ci_username := Some username\<rparr>,
             send_response_srv ci (''USR '' @ transaction_id @ '' MD5 S '' @ challenge @ CRLF) srv))
         else if auth_type = ''MD5'' \<and> length parts = 5 then
           (let username = parts ! 3; client_hash = parts ! 4 in
            if authenticate_user rt srv username client_hash
                 (case ci_challenge ci of None \<Rightarrow> [] | Some c \<Rightarrow> c)
            then
              (let ci' = ci\<lparr>ci_authenticated := True, ci_email := Some username,
                            ci_status := ''NLN''\<rparr>;
                   srv1 = send_response_srv ci'
                            (''USR '' @ transaction_id @ '' OK '' @ username @ '' ''
                               @ get_display_name srv username @ CRLF) srv
               in (ci', send_initial_presence ci' srv1))
            else (ci, send_response_srv ci (''USR '' @ transaction_id @ '' 911 0'' @ CRLF) srv))
         else (ci, srv)))"

definition lst_line_srv :: "string option \<times> string \<times> string option \<Rightarrow> string" where
  "lst_line_srv contact =
     (case contact of (e, name, lt) \<Rightarrow>
        ''LST '' @ fmt e @ '' '' @ name @ '' '' @ fmt lt @ CRLF)"

definition handle_syn_command :: "conn_info \<Rightarrow> MSNPServer \<Rightarrow> string list \<Rightarrow> conn_info \<times> MSNPServer" where
  "handle_syn_command ci srv parts =
     (if \<not> ci_authenticated ci then (ci, send_error_srv ci ''911'' srv)
      else
        (let transaction_id = (if 1 < length parts then parts ! 1 else ''0'');
             rows = get_user_contacts_srv srv (fmt (ci_email ci));
             srv1 = send_response_srv ci
                      (''SYN '' @ transaction_id @ '' '' @ str_of_nat (length rows) @ '' 0'' @ CRLF)
                      srv
         in (ci, fold (\<lambda>contact. send_response_srv ci (lst_line_srv contact)) rows srv1)))"

definition handle_chg_command :: "conn_info \<Rightarrow> MSNPServer \<Rightarrow> string list \<Rightarrow> conn_info \<times> MSNPServer" where
  "handle_chg_command ci srv parts =
     (if \<not> ci_authenticated ci then (ci, send_error_srv ci ''911'' srv)
      else if length parts < 3 then (ci, send_error_srv ci ''501'' srv)
      else
        (let transaction_id = parts ! 1; new_status = parts ! 2;
             ci' = ci\<lparr>ci_status := new_status\<rparr>;
             srv1 = send_response_srv ci' (''CHG '' @ transaction_id @ '' '' @ new_status @ CRLF) srv
         in (ci', broadcast_status_change_srv ci' srv1)))"

text \<open>\<open>s.find('\r\n')\<close> and the slice \<open>s[a:b]\<close> for \<open>a \<ge> 0\<close>.\<close>

fun find_crlf :: "string \<Rightarrow> nat option" where
  "find_crlf [] = None"
| "find_crlf (c # cs) =
     (if take 2 (c # cs) = CRLF then Some 0 else map_option Suc (find_crlf cs))"

definition py_slice :: "string \<Rightarrow> nat \<Rightarrow> int \<Rightarrow> string" where
  "py_slice s a b =
     (let n = int (length s);
          b1 = (if b < 0 then max 0 (b + n) else min b n)
      in drop a (take (nat b1) s))"

definition handle_msg_command ::
  "srv_runtime \<Rightarrow> conn_info \<Rightarrow> MSNPServer \<Rightarrow> string list \<Rightarrow> string
     \<Rightarrow> (conn_info \<times> MSNPServer) option" where
  "handle_msg_command rt ci srv parts full_message =
     (if \<not> ci_authenticated ci then Some (ci, send_error_srv ci ''911'' srv)
      else if length parts < 4 then Some (ci, send_error_srv ci ''501'' srv)
      else
        (let transaction_id = parts ! 1;
             recipient = (if parts ! 2 \<noteq> ''U'' then Some (parts ! 2) else None)
         in case py_int rt (parts ! 3) of
              None \<Rightarrow> None
            | Some msg_length \<Rightarrow>
                (case find_crlf full_message of
                   None \<Rightarrow> Some (ci, srv)
                 | Some header_end \<Rightarrow>
                     (let message_body =
                            py_slice full_message (header_end + 2) (int header_end + 2 + msg_length);
                          srv1 = store_message (ci_email ci) recipient message_body srv;
                          srv2 = send_response_srv ci (''ACK '' @ transaction_id @ CRLF) srv1
                      in Some (ci, (case recipient of
                                      None \<Rightarrow> srv2
                                    | Some r \<Rightarrow>
                                        if r = [] then srv2
                                        else forward_message (fmt (ci_email ci)) r message_body srv2))))))"

definition handle_add_command :: "conn_info \<Rightarrow> MSNPServer \<Rightarrow> string list \<Rightarrow> conn_info \<times> MSNPServer" where
  "handle_add_command ci srv parts =
     (if \<not> ci_authenticated ci then (ci, send_error_srv ci ''911'' srv)
      else if length parts < 5 then (ci, send_error_srv ci ''501'' srv)
      else
        (let transaction_id = parts ! 1; lt = parts ! 2; peer = parts ! 3;
             name = parts ! 4;
             srv1 = add_contact_srv (fmt (ci_email ci)) peer name lt srv
         in (ci, send_response_srv ci
                   (''ADD '' @ transaction_id @ '' '' @ lt @ '' '' @ peer @ '' ''
                      @ name @ CRLF) srv1)))"

definition handle_rem_command :: "conn_info \<Rightarrow> MSNPServer \<Rightarrow> string list \<Rightarrow> conn_info \<times> MSNPServer" where
  "handle_rem_command ci srv parts =
     (if \<not> ci_authenticated ci then (ci, send_error_srv ci ''911'' srv)
      else if length parts < 4 then (ci, send_error_srv ci ''501'' srv)
      else
        (let transaction_id = parts ! 1; lt = parts ! 2; peer = parts ! 3;
             srv1 = remove_contact_srv (fmt (ci_email ci)) peer lt srv
         in (ci, send_response_srv ci
                   (''REM '' @ transaction_id @ '' '' @ lt @ '' '' @ peer @ CRLF) srv1)))"

definition handle_out_command :: "conn_info \<Rightarrow> MSNPServer \<Rightarrow> string list \<Rightarrow> conn_info \<times> MSNPServer" where
  "handle_out_command ci srv parts =
     (let srv1 = send_response_srv ci (''OUT'' @ CRLF) srv
      in (ci, srv1\<lparr>sock_closed := insert (ci_socket ci) (sock_closed srv1)\<rparr>))"

definition handle_png_command :: "conn_info \<Rightarrow> MSNPServer \<Rightarrow> string list \<Rightarrow> conn_info \<times> MSNPServer" where
  "handle_png_command ci srv parts = (ci, send_response_srv ci (''QNG 50'' @ CRLF) srv)"

text \<open>
  \<open>process_msnp_command\<close>: the parts are cut at whitespace, the verb is upper-cased; an
  exception of a handler is answered by \<open>send_error(client_info, "911")\<close>.
\<close>

definition process_msnp_command ::
  "srv_runtime \<Rightarrow> conn_info \<Rightarrow> MSNPServer \<Rightarrow> string \<Rightarrow> conn_info \<times> MSNPServer" where
  "process_msnp_command rt ci srv message =
     (if message = [] then (ci, srv)
      else
        (let parts = split_ws message in
         if length parts < 1 then (ci, srv)
         else
           (let command = upper (parts ! 0) in
            if command = ''VER'' then handle_ver_command ci srv parts
            else if command = ''CVR'' then handle_cvr_command ci srv parts
            else if command = ''USR'' then handle_usr_command rt ci srv parts
            else if command = ''SYN'' then handle_syn_command ci srv parts
            else if command = ''CHG'' then handle_chg_command ci srv parts
            else if command = ''LST'' then (ci, srv)
            else if command = ''ADD'' then handle_add_command ci srv parts
            else if command = ''REM'' then handle_rem_command ci srv parts
            else if command = ''MSG'' then
              (case handle_msg_command rt ci srv parts message of
                 None \<Rightarrow> (ci, send_error_srv ci ''911'' srv)
               | Some r \<Rightarrow> r)
            else if command = ''OUT'' then handle_out_command ci srv parts
            else if command = ''PNG'' then handle_png_command ci srv parts
            else if command = ''QNG'' then (ci, srv)
            else (ci, srv))))"

text \<open>
  \<open>handle_client\<close>: a connection is entered into \<open>self.clients\<close>, every chunk received
  is stripped and processed, and \<open>cleanup_client\<close> closes the socket and deletes the
  entry.
\<close>

definition accept :: "nat \<Rightarrow> MSNPServer \<Rightarrow> nat \<times> MSNPServer" where
  "accept sk srv =
     (let client_id = client_counter srv;
          ci = \<lparr>ci_socket = sk, ci_id = client_id, ci_authenticated = False, ci_email = None,
                ci_transaction_id = 0, ci_version = None, ci_status = ''FLN'',
                ci_challenge = None, ci_username = None\<rparr>
      in (client_id,
          srv\<lparr>srv_clients := AList.update client_id ci (srv_clients srv),
              client_counter := client_counter srv + 1\<rparr>))"

definition recv :: "srv_runtime \<Rightarrow> nat \<Rightarrow> string \<Rightarrow> MSNPServer \<Rightarrow> MSNPServer" where
  "recv rt client_id data srv =
     (case map_of (srv_clients srv) client_id of
        None \<Rightarrow> srv
      | Some ci \<Rightarrow>
          (let (ci', srv') = process_msnp_command rt ci srv (strip data)
           in srv'\<lparr>srv_clients := AList.update client_id ci' (srv_clients srv')\<rparr>))"

definition cleanup_client :: "nat \<Rightarrow> MSNPServer \<Rightarrow> MSNPServer" where
  "cleanup_client client_id srv =
     (case map_of (srv_clients srv) client_id of
        None \<Rightarrow> srv
      | Some ci \<Rightarrow>
          srv\<lparr>srv_clients := AList.delete client_id (srv_clients srv),
              sock_closed := insert (ci_socket ci) (sock_closed srv)\<rparr>)"

section \<open>Connections over time\<close>

text \<open>
  \<open>MSNPServer.handle_client\<close> of \<open>server/msnp_server.py\<close> makes one handler per
  accepted connection and runs its loop; the loops of different connections interleave at
  whole commands. A state of the asynchronous server is the handler of every open
  connection (named by its writer) and the shared objects. A writer object is new when it
  is accepted: \<open>Connect w\<close> does nothing if \<open>w\<close> already names a handler or an entry of
  the registry. \<open>Collect\<close> is a garbage collection of the interpreter, which may come
  between any two commands.
\<close>

record system =
  handler_of :: "nat \<rightharpoonup> MSNPProtocolHandler"
  shared :: world

datatype event = Connect nat | Line runtime nat string | Eof nat | Collect

definition writer_in_use :: "system \<Rightarrow> nat \<Rightarrow> bool" where
  "writer_in_use s w =
     (handler_of s w \<noteq> None
      \<or> w \<in> (\<lambda>p. writer (snd p)) ` set (clients (client_manager (shared s))))"

fun sys_step :: "event \<Rightarrow> system \<Rightarrow> system" where
  "sys_step (Connect w) s =
     (if writer_in_use s w then s
      else s\<lparr>handler_of := (handler_of s)(w \<mapsto> MSNPProtocolHandler_init w)\<rparr>)"
| "sys_step (Line rt w data) s =
     (case handler_of s w of
        None \<Rightarrow> s
      | Some h \<Rightarrow>
          (case handle_line rt h (shared s) data of
             None \<Rightarrow> \<lparr>handler_of = (handler_of s)(w := None),
                       shared = close_connection h (shared s)\<rparr>
           | Some (h', wd') \<Rightarrow> \<lparr>handler_of = (handler_of s)(w \<mapsto> h'), shared = wd'\<rparr>))"
| "sys_step (Eof w) s =
     (case handler_of s w of
        None \<Rightarrow> s
      | Some h \<Rightarrow> \<lparr>handler_of = (handler_of s)(w := None),
                    shared = close_connection h (shared s)\<rparr>)"
| "sys_step Collect s =
     s\<lparr>shared := (shared s)\<lparr>db_manager := collect_garbage (db_manager (shared s))\<rparr>\<rparr>"

definition sys_run :: "event list \<Rightarrow> system \<Rightarrow> system" where
  "sys_run evs s = fold sys_step evs s"

text \<open>The threaded server: a connection is accepted, sends a chunk, or ends.\<close>

datatype srv_event = Accept nat | Recv srv_runtime nat string | Cleanup nat

fun srv_step :: "srv_event \<Rightarrow> MSNPServer \<Rightarrow> MSNPServer" where
  "srv_step (Accept sk) srv = snd (accept sk srv)"
| "srv_step (Recv rt client_id data) srv = recv rt client_id data srv"
| "srv_step (Cleanup client_id) srv = cleanup_client client_id srv"

definition srv_run :: "srv_event list \<Rightarrow> MSNPServer \<Rightarrow> MSNPServer" where
  "srv_run evs srv = fold srv_step evs srv"



section \<open>Notions of the specification\<close>

text \<open>
  The place of a dialect in the order in which a server tries its dialects (0 is tried
  first), and the number a dialect tag \<open>MSNPn\<close> ends in.
\<close>

definition rank :: "string list \<Rightarrow> string \<Rightarrow> nat" where
  "rank order v = length (takeWhile (\<lambda>x. x \<noteq> v) order)"

definition dialect_number :: "string \<Rightarrow> nat" where
  "dialect_number v = fold (\<lambda>c n. 10 * n + (of_char c - 48)) (drop 4 v) 0"

text \<open>The lines a step added to a writer or a socket.\<close>

definition lines_since :: "world \<Rightarrow> world \<Rightarrow> nat \<Rightarrow> string list" where
  "lines_since wd wd' w = drop (length (written wd w)) (written wd' w)"

definition new_on :: "MSNPServer \<Rightarrow> MSNPServer \<Rightarrow> nat \<Rightarrow> string list" where
  "new_on srv srv' sk = drop (length (sock_sent srv sk)) (sock_sent srv' sk)"

text \<open>A line that starts with a digit: a numeric error code.\<close>

definition digit_first :: "string \<Rightarrow> bool" where
  "digit_first l = (case l of [] \<Rightarrow> False | c # cs \<Rightarrow> c \<in> set ''0123456789'')"

text \<open>
  The interested peers of the specification, in its words, read from the contacts table
  of the threaded server: \<open>p\<close> is on the reverse list of \<open>u\<close>, is not on the block list of
  \<open>u\<close>, and is on the allow list of \<open>u\<close> unless that list is empty.
\<close>

definition list_of :: "MSNPServer \<Rightarrow> string \<Rightarrow> string \<Rightarrow> string option list" where
  "list_of srv u lt =
     (case user_id_of srv u of
        None \<Rightarrow> []
      | Some i \<Rightarrow> map c_contact_email
                    (filter (\<lambda>r. c_user_id r = Some i \<and> c_list_type r = Some lt)
                       (tbl_contacts srv)))"

definition interested :: "MSNPServer \<Rightarrow> string \<Rightarrow> string \<Rightarrow> bool" where
  "interested srv u p =
     (Some p \<in> set (list_of srv u ''RL'')
      \<and> Some p \<notin> set (list_of srv u ''BL'')
      \<and> (Some p \<in> set (list_of srv u ''AL'') \<or> list_of srv u ''AL'' = []))"


text \<open>Every id of the registry lies below the next id to be given out.\<close>

definition ids_below :: "ClientManager \<Rightarrow> bool" where
  "ids_below m = (\<forall>(i, c) \<in> set (clients m). i < next_client_id m)"

section \<open>Concrete states\<close>

text \<open>A registry of three clients: online, hidden and busy.\<close>

definition cm3 :: ClientManager where
  "cm3 =
     \<lparr>clients =
        [(1, \<lparr>id_of = 1, email = ''a@x'', writer = 10, status = ''NLN'',
               connected_at = 0, last_activity = 0\<rparr>),
         (2, \<lparr>id_of = 2, email = ''b@x'', writer = 11, status = ''HDN'',
               connected_at = 0, last_activity = 0\<rparr>),
         (3, \<lparr>id_of = 3, email = ''c@x'', writer = 12, status = ''BSY'',
               connected_at = 0, last_activity = 0\<rparr>)],
      email_to_client = [''a@x'' \<mapsto> 1, ''b@x'' \<mapsto> 2, ''c@x'' \<mapsto> 3],
      next_client_id = 4\<rparr>"

text \<open>
  The asynchronous server at its start, with two users in the store and three contact
  rows of the first, entered in this order: \<open>c@x\<close> on \<open>FL\<close>, \<open>b@x\<close> on \<open>FL\<close>,
  \<open>b@x\<close> on \<open>AL\<close>; and what the outside gives to every command.
\<close>

definition db0 :: DatabaseManager where
  "db0 = \<lparr>users = [\<lparr>user_email = ''a@x'', password = ''p'', display_name = Some ''A''\<rparr>,
                    \<lparr>user_email = ''b@x'', password = ''q'', display_name = Some ''B''\<rparr>],
          contacts = [\<lparr>owner_email = ''a@x'', contact_email = ''c@x'', nickname = Some ''C'',
                       list_type = Some ''FL''\<rparr>,
                      \<lparr>owner_email = ''a@x'', contact_email = ''b@x'', nickname = Some ''B'',
                       list_type = Some ''FL''\<rparr>,
                      \<lparr>owner_email = ''a@x'', contact_email = ''b@x'', nickname = Some ''B'',
                       list_type = Some ''AL''\<rparr>],
          write_locked = False\<rparr>"

definition world0 :: world where
  "world0 = \<lparr>client_manager = ClientManager_init, db_manager = db0,
             written = (\<lambda>w. []), closed = {}\<rparr>"

definition sys0 :: system where
  "sys0 = \<lparr>handler_of = Map.empty, shared = world0\<rparr>"

definition rt0 :: runtime where
  "rt0 = \<lparr>clock = 0, uuid4 = ''nonce'', read_payload = (\<lambda>s. None),
          broadcast_status_change = (\<lambda>m e st. [])\<rparr>"

text \<open>
  A client connects with writer 10 and logs in as \<open>a@x\<close> in the way of
  \<open>tests/test_client.py\<close>; then a second client does the same with writer 11.
\<close>

definition login_a :: "event list" where
  "login_a = [Connect 10, Line rt0 10 (''USR 3 I a@x'' @ CRLF),
              Line rt0 10 (''USR 4 S dummy_hash'' @ CRLF)]"

definition login_a_again :: "event list" where
  "login_a_again = [Connect 11, Line rt0 11 (''USR 3 I a@x'' @ CRLF),
                    Line rt0 11 (''USR 4 S dummy_hash'' @ CRLF)]"

definition sys_a :: system where
  "sys_a =
     \<lparr>handler_of =
        [10 \<mapsto> \<lparr>self_writer = 10, self_client_id = Some 1, self_email = Some ''a@x'',
                  self_transaction_id = 0, self_authenticated = True,
                  self_protocol_version = None\<rparr>],
      shared =
        \<lparr>client_manager =
           \<lparr>clients = [(1, \<lparr>id_of = 1, email = ''a@x'', writer = 10, status = ''NLN'',
                            connected_at = 0, last_activity = 0\<rparr>)],
            email_to_client = [''a@x'' \<mapsto> 1], next_client_id = 2\<rparr>,
         db_manager = db0,
         written = (\<lambda>w. [])(10 := [''USR 3 S nonce'' @ CRLF, ''USR 4 OK a@x a@x 1 0'' @ CRLF]),
         closed = {}\<rparr>\<rparr>"



text \<open>
  The threaded server with the users and contacts that \<open>database_setup.py\<close> enters,
  and three connections: two logged in, one not.
\<close>

definition srv_rt0 :: srv_runtime where
  "srv_rt0 = \<lparr>generate_challenge = ''nonce'', md5_hexdigest = (\<lambda>s. ''md5('' @ s @ '')''),
              py_int = (\<lambda>s. None)\<rparr>"

definition aqua :: conn_info where
  "aqua = \<lparr>ci_socket = 21, ci_id = 1, ci_authenticated = True,
           ci_email = Some ''aquaboxs34@hotmail.com'', ci_transaction_id = 0,
           ci_version = None, ci_status = ''NLN'', ci_challenge = Some ''nonce'',
           ci_username = Some ''aquaboxs34@hotmail.com''\<rparr>"

definition tester :: conn_info where
  "tester = \<lparr>ci_socket = 22, ci_id = 2, ci_authenticated = True,
             ci_email = Some ''testuser@hotmail.com'', ci_transaction_id = 0,
             ci_version = None, ci_status = ''NLN'', ci_challenge = Some ''nonce'',
             ci_username = Some ''testuser@hotmail.com''\<rparr>"

definition guest :: conn_info where
  "guest = \<lparr>ci_socket = 23, ci_id = 3, ci_authenticated = False, ci_email = None,
            ci_transaction_id = 0, ci_version = None, ci_status = ''FLN'',
            ci_challenge = None, ci_username = None\<rparr>"

definition srv_start :: MSNPServer where
  "srv_start =
     \<lparr>srv_clients = [],
      client_counter = 1,
      tbl_users =
        [\<lparr>uid = 1, u_email = ''aquaboxs34@hotmail.com'', u_password = ''password123'',
          u_display_name = Some ''AquaBoxs''\<rparr>,
         \<lparr>uid = 2, u_email = ''testuser@hotmail.com'', u_password = ''test123'',
          u_display_name = Some ''Test User''\<rparr>,
         \<lparr>uid = 3, u_email = ''friend1@hotmail.com'', u_password = ''friend123'',
          u_display_name = Some ''Friend One''\<rparr>,
         \<lparr>uid = 4, u_email = ''buddy@msn.com'', u_password = ''buddy123'',
          u_display_name = Some ''My Buddy''\<rparr>,
         \<lparr>uid = 5, u_email = ''contact@example.com'', u_password = ''contact123'',
          u_display_name = Some ''Example Contact''\<rparr>],
      tbl_contacts =
        [\<lparr>c_user_id = Some 1, c_contact_email = Some ''testuser@hotmail.com'',
          c_contact_name = Some ''Test User'', c_list_type = Some ''FL''\<rparr>,
         \<lparr>c_user_id = Some 1, c_contact_email = Some ''friend1@hotmail.com'',
          c_contact_name = Some ''Friend One'', c_list_type = Some ''FL''\<rparr>,
         \<lparr>c_user_id = Some 1, c_contact_email = Some ''buddy@msn.com'',
          c_contact_name = Some ''My Buddy'', c_list_type = Some ''FL''\<rparr>,
         \<lparr>c_user_id = Some 1, c_contact_email = Some ''contact@example.com'',
          c_contact_name = Some ''Example Contact'', c_list_type = Some ''AL''\<rparr>],
      tbl_messages = [],
      sock_sent = (\<lambda>sk. []),
      sock_closed = {}\<rparr>"

definition logins :: "srv_event list" where
  "logins =
     [Accept 21, Accept 22, Accept 23,
      Recv srv_rt0 1 (''USR 1 MD5 aquaboxs34@hotmail.com'' @ CRLF),
      Recv srv_rt0 1 (''USR 2 MD5 aquaboxs34@hotmail.com md5(md5(password123)nonce)'' @ CRLF),
      Recv srv_rt0 2 (''USR 1 MD5 testuser@hotmail.com'' @ CRLF),
      Recv srv_rt0 2 (''USR 2 MD5 testuser@hotmail.com md5(md5(test123)nonce)'' @ CRLF)]"

definition srv0 :: MSNPServer where
  "srv0 =
     srv_start
       \<lparr>srv_clients := [(1, aqua), (2, tester), (3, guest)], client_counter := 4,
        sock_sent :=
          (\<lambda>sk. [])
            (21 := [''USR 1 MD5 S nonce'' @ CRLF,
                    ''USR 2 OK aquaboxs34@hotmail.com AquaBoxs'' @ CRLF,
                    ''NLN NLN aquaboxs34@hotmail.com AquaBoxs'' @ CRLF],
             22 := [''USR 1 MD5 S nonce'' @ CRLF,
                    ''USR 2 OK testuser@hotmail.com Test User'' @ CRLF,
                    ''NLN NLN testuser@hotmail.com Test User'' @ CRLF])\<rparr>"











definition reg_ok :: "system \<Rightarrow> bool" where
  "reg_ok s =
     (distinct (map fst (clients (client_manager (shared s))))
      \<and> (\<forall>c info. map_of (clients (client_manager (shared s))) c = Some info \<longrightarrow>
            c < next_client_id (client_manager (shared s)))
      \<and> (\<forall>w h. handler_of s w = Some h \<longrightarrow>
            self_writer h = w
            \<and> (\<forall>c. self_client_id h = Some c \<longrightarrow>
                  c < next_client_id (client_manager (shared s))
                  \<and> (\<forall>info. map_of (clients (client_manager (shared s))) c = Some info \<longrightarrow>
                        writer info = w))))"





section \<open>Properties\<close>

lemma get_online_contacts_set:
  "set (get_online_contacts cm e) =
     {(email info, status info) | info.
        info \<in> snd ` set (clients cm) \<and> email info \<noteq> e \<and> status info \<noteq> ''HDN''}"
  by (auto simp: get_online_contacts_def)

text \<open>
  C10. Whatever the registry and the queried email, every entry that
  \<open>get_online_contacts\<close> returns is the email and status of a connected client whose
  email differs from the queried one and whose status is not \<open>HDN\<close>; a client whose
  status is \<open>HDN\<close> contributes no entry, and every other client with another email
  contributes its own.
\<close>

theorem get_online_contacts_visible:
  "(\<forall>r \<in> set (get_online_contacts cm e).
      \<exists>info \<in> snd ` set (clients cm).
        r = (email info, status info) \<and> email info \<noteq> e \<and> status info \<noteq> ''HDN'')
   \<and> get_online_contacts cm e =
       map (\<lambda>info. (email info, status info))
         (filter (\<lambda>info. \<not> (email info = e \<or> status info = ''HDN'')) (map snd (clients cm)))
   \<and> (\<forall>info \<in> snd ` set (clients cm).
        email info \<noteq> e \<and> status info \<noteq> ''HDN''
          \<longrightarrow> (email info, status info) \<in> set (get_online_contacts cm e))"
  unfolding get_online_contacts_set by (auto simp: get_online_contacts_def)

theorem get_online_contacts_visible_witness:
  "(''c@x'', ''BSY'') \<in> set (get_online_contacts cm3 ''a@x'')
   \<and> (\<exists>info \<in> snd ` set (clients cm3).
         (''c@x'', ''BSY'') = (email info, status info)
         \<and> email info \<noteq> ''a@x'' \<and> status info \<noteq> ''HDN'')
   \<and> (''b@x'', ''HDN'') \<notin> set (get_online_contacts cm3 ''a@x'')"
  using get_online_contacts_visible [of cm3 "''a@x''"]
  by (simp add: cm3_def get_online_contacts_def)

subsection \<open>Writing to writers and sockets\<close>

lemma write_to_simps [simp]:
  "written (write_to w s wd) = (written wd)(w := written wd w @ [s])"
  "closed (write_to w s wd) = closed wd"
  "client_manager (write_to w s wd) = client_manager wd"
  "db_manager (write_to w s wd) = db_manager wd"
  by (simp_all add: write_to_def)

lemma sock_send_simps [simp]:
  "sock_closed (sock_send sk s srv) = sock_closed srv"
  "srv_clients (sock_send sk s srv) = srv_clients srv"
  "tbl_users (sock_send sk s srv) = tbl_users srv"
  "tbl_contacts (sock_send sk s srv) = tbl_contacts srv"
  "tbl_messages (sock_send sk s srv) = tbl_messages srv"
  "client_counter (sock_send sk s srv) = client_counter srv"
  "sock_sent (sock_send sk s srv) =
     (if sk \<in> sock_closed srv then sock_sent srv
      else (sock_sent srv)(sk := sock_sent srv sk @ [s]))"
  by (simp_all add: sock_send_def)

subsection \<open>Version negotiation\<close>

lemma select_version_None:
  "select_version order V = None \<longleftrightarrow> set V \<inter> set order = {}"
  by (auto simp: select_version_def find_None_iff)

lemma select_version_Some:
  assumes "select_version order V = Some w"
  shows "w \<in> set V \<inter> set order \<and> (\<forall>v \<in> set V \<inter> set order. rank order w \<le> rank order v)"
  using assms
proof (induction order)
  case Nil
  then show ?case by (simp add: select_version_def)
next
  case (Cons a order)
  then show ?case
    by (auto simp: select_version_def rank_def split: if_splits)
qed

text \<open>Both servers try their dialects from the greatest number down.\<close>

lemma tried_in_descending_order:
  "sorted_wrt (\<lambda>a b. dialect_number b < dialect_number a) supported_versions"
  "sorted_wrt (\<lambda>a b. dialect_number b < dialect_number a) (rev supported_versions_srv)"
  by (simp_all add: supported_versions_def supported_versions_srv_def dialect_number_def)

lemma handle_ver_reply:
  "(case handle_ver h wd parts t of (h', wd') \<Rightarrow>
      (\<exists>w. written wd' (self_writer h) =
              written wd (self_writer h) @ [''VER '' @ t @ '' '' @ w @ CRLF]
          \<and> self_protocol_version h' = Some w
          \<and> (set (drop 2 parts) \<inter> set supported_versions \<noteq> {} \<longrightarrow>
               w \<in> set (drop 2 parts) \<inter> set supported_versions
               \<and> (\<forall>v \<in> set (drop 2 parts) \<inter> set supported_versions.
                     rank supported_versions w \<le> rank supported_versions v))
          \<and> (set (drop 2 parts) \<inter> set supported_versions = {} \<longrightarrow> w = ''MSNP8''))
      \<and> closed wd' = closed wd
      \<and> (\<forall>w'. w' \<noteq> self_writer h \<longrightarrow> written wd' w' = written wd w'))"
proof (cases "select_version supported_versions (drop 2 parts)")
  case None
  then show ?thesis
    using select_version_None [of supported_versions "drop 2 parts"]
    by (simp add: handle_ver_def send_response_def)
next
  case (Some w)
  then show ?thesis
    using select_version_Some [OF Some] select_version_None [of supported_versions "drop 2 parts"]
    by (simp add: handle_ver_def send_response_def)
qed

lemma handle_ver_command_reply:
  "3 \<le> length parts \<longrightarrow>
     (case handle_ver_command ci srv parts of (ci', srv') \<Rightarrow>
        (\<exists>w. (ci_socket ci \<notin> sock_closed srv \<longrightarrow>
                sock_sent srv' (ci_socket ci) =
                  sock_sent srv (ci_socket ci) @ [''VER '' @ parts ! 1 @ '' '' @ w @ CRLF])
            \<and> ci_version ci' = Some w
            \<and> (set (drop 2 parts) \<inter> set supported_versions_srv \<noteq> {} \<longrightarrow>
                 w \<in> set (drop 2 parts) \<inter> set supported_versions_srv
                 \<and> (\<forall>v \<in> set (drop 2 parts) \<inter> set supported_versions_srv.
                       rank (rev supported_versions_srv) w
                         \<le> rank (rev supported_versions_srv) v))
            \<and> (set (drop 2 parts) \<inter> set supported_versions_srv = {} \<longrightarrow> w = ''MSNP7''))
        \<and> sock_closed srv' = sock_closed srv)"
proof (cases "select_version (rev supported_versions_srv) (drop 2 parts)")
  case None
  then show ?thesis
    using select_version_None [of "rev supported_versions_srv" "drop 2 parts"]
    by (simp add: handle_ver_command_def send_response_srv_def)
next
  case (Some w)
  then show ?thesis
    using select_version_Some [OF Some]
      select_version_None [of "rev supported_versions_srv" "drop 2 parts"]
    by (simp add: handle_ver_command_def send_response_srv_def)
qed

text \<open>
  C2, as the claim states it, fails. The client offers only \<open>MSNP99\<close>, which the
  asynchronous server does not support: the claim has the reply \<open>VER 1 0\<close> and the
  connection closed, the handler replies \<open>VER 1 MSNP8\<close> and closes nothing.
\<close>

theorem ver_no_overlap_counterexample:
  "set [''MSNP99''] \<inter> set supported_versions = {}
   \<and> process_command rt0 (MSNPProtocolHandler_init 10) world0 ''VER 1 MSNP99'' \<noteq> None
   \<and> written (snd (the (process_command rt0 (MSNPProtocolHandler_init 10) world0
                          ''VER 1 MSNP99''))) 10
       = [''VER 1 MSNP8'' @ CRLF]
   \<and> written (snd (the (process_command rt0 (MSNPProtocolHandler_init 10) world0
                          ''VER 1 MSNP99''))) 10
       \<noteq> [''VER 1 0'' @ CRLF]
   \<and> 10 \<notin> closed (snd (the (process_command rt0 (MSNPProtocolHandler_init 10) world0
                               ''VER 1 MSNP99'')))"
  by (simp add: process_command_def handle_ver_def select_version_def supported_versions_def
      send_response_def MSNPProtocolHandler_init_def world0_def CRLF_def)

text \<open>
  C2, amended. For every \<open>VER\<close> command with offered dialects \<open>V\<close> (the parts after the
  transaction id) each server writes exactly one line \<open>VER t w\<close> to the session and
  records \<open>w\<close> as its version. When \<open>V\<close> meets the supported set, \<open>w\<close> is the member of
  the intersection that the server tries first, and the servers try greater dialects
  first. When the intersection is empty, \<open>w\<close> is the fallback (\<open>MSNP8\<close> in the
  asynchronous handler, \<open>MSNP7\<close> in the threaded server), and in either case nothing is
  closed. The threaded server does so for a command of at least three parts.
\<close>

theorem ver_reply_first_supported:
  "(case handle_ver h wd parts t of (h', wd') \<Rightarrow>
      (\<exists>w. written wd' (self_writer h) =
              written wd (self_writer h) @ [''VER '' @ t @ '' '' @ w @ CRLF]
          \<and> self_protocol_version h' = Some w
          \<and> (set (drop 2 parts) \<inter> set supported_versions \<noteq> {} \<longrightarrow>
               w \<in> set (drop 2 parts) \<inter> set supported_versions
               \<and> (\<forall>v \<in> set (drop 2 parts) \<inter> set supported_versions.
                     rank supported_versions w \<le> rank supported_versions v))
          \<and> (set (drop 2 parts) \<inter> set supported_versions = {} \<longrightarrow> w = ''MSNP8''))
      \<and> closed wd' = closed wd)
   \<and> (3 \<le> length parts \<longrightarrow>
       (case handle_ver_command ci srv parts of (ci', srv') \<Rightarrow>
          (\<exists>w. (ci_socket ci \<notin> sock_closed srv \<longrightarrow>
                  sock_sent srv' (ci_socket ci) =
                    sock_sent srv (ci_socket ci) @ [''VER '' @ parts ! 1 @ '' '' @ w @ CRLF])
              \<and> ci_version ci' = Some w
              \<and> (set (drop 2 parts) \<inter> set supported_versions_srv \<noteq> {} \<longrightarrow>
                   w \<in> set (drop 2 parts) \<inter> set supported_versions_srv
                   \<and> (\<forall>v \<in> set (drop 2 parts) \<inter> set supported_versions_srv.
                         rank (rev supported_versions_srv) w
                           \<le> rank (rev supported_versions_srv) v))
              \<and> (set (drop 2 parts) \<inter> set supported_versions_srv = {} \<longrightarrow> w = ''MSNP7''))
          \<and> sock_closed srv' = sock_closed srv))"
  using handle_ver_reply [where h = h and wd = wd and parts = parts and t = t]
    handle_ver_command_reply [where parts = parts and ci = ci and srv = srv]
  by (simp add: case_prod_unfold)

subsection \<open>The concrete states are reached\<close>

lemma sys_run_append: "sys_run (xs @ ys) s = sys_run ys (sys_run xs s)"
  by (simp add: sys_run_def)

lemma srv_run_append: "srv_run (xs @ ys) srv = srv_run ys (srv_run xs srv)"
  by (simp add: srv_run_def)

lemma login_a_state: "sys_run login_a sys0 = sys_a"
  by (simp add: sys_run_def login_a_def sys0_def sys_a_def writer_in_use_def world0_def
      ClientManager_init_def handle_line_def strip_def isspace_def process_command_def
      handle_usr_def MSNPProtocolHandler_init_def send_response_def rt0_def
      get_user_by_email_def db0_def add_client_def CRLF_def fun_upd_twist del: One_nat_def)

lemma logins_state: "srv_run logins srv_start = srv0"
  by (simp add: srv_run_def logins_def srv_start_def srv0_def accept_def recv_def
      strip_def isspace_def process_msnp_command_def split_ws_def upper_def upper_char_def
      handle_usr_command_def authenticate_user_def srv_rt0_def lower_def lower_char_def
      send_response_srv_def send_initial_presence_def get_display_name_def fmt_def
      aqua_def tester_def guest_def CRLF_def sock_send_def fun_upd_twist Let_def
      del: One_nat_def)


subsection \<open>Authentication\<close>

text \<open>
  The threaded server verifies the hash: \<open>authenticate_user\<close> holds exactly when the
  user is in the table and the hash equals, letter case apart, the digest of the digest
  of the password followed by the challenge.
\<close>

lemma authenticate_user_iff:
  "authenticate_user rt srv username client_hash challenge \<longleftrightarrow>
     (\<exists>u. find (\<lambda>u. u_email u = username) (tbl_users srv) = Some u
        \<and> lower client_hash
            = lower (md5_hexdigest rt (md5_hexdigest rt (u_password u) @ challenge)))"
  by (simp add: authenticate_user_def Let_def split: option.splits)

text \<open>The asynchronous handler never reads the hash of phase 2.\<close>

lemma handle_usr_ignores_hash:
  "handle_usr rt h wd [c, t', ''S'', hash1] t = handle_usr rt h wd [c, t', ''S'', hash2] t"
  by (simp add: handle_usr_def)

text \<open>
  C1. The asynchronous handler does not do what the claim says: after phase 1 for the
  known user \<open>a@x\<close>, whose nonce was \<open>nonce\<close>, phase 2 with the hash \<open>dummy_hash\<close>
  (no MD5 digest at all) makes the session authenticated and is answered by
  \<open>USR 4 OK a@x a@x 1 0\<close>.
\<close>

theorem usr_accepts_dummy_hash:
  "map_option self_authenticated (handler_of (sys_run login_a sys0) 10) = Some True
   \<and> written (shared (sys_run login_a sys0)) 10
       = [''USR 3 S nonce'' @ CRLF, ''USR 4 OK a@x a@x 1 0'' @ CRLF]
   \<and> map fst (clients (client_manager (shared (sys_run login_a sys0)))) = [1]"
  by (simp add: login_a_state sys_a_def)

subsection \<open>The registry\<close>

lemma update_fresh:
  "k \<notin> fst ` set al \<Longrightarrow> AList.update k v al = al @ [(k, v)]"
  by (induction al) auto

lemma add_client_appends:
  "ids_below m \<Longrightarrow>
     add_client t w e m =
       (next_client_id m,
        \<lparr>clients = clients m @
           [(next_client_id m,
             \<lparr>id_of = next_client_id m, email = e, writer = w, status = ''NLN'',
              connected_at = t, last_activity = t\<rparr>)],
         email_to_client = (email_to_client m)(e \<mapsto> next_client_id m),
         next_client_id = next_client_id m + 1\<rparr>)"
  by (auto simp: add_client_def Let_def ids_below_def intro!: update_fresh)

lemma login_a_again_state:
  "sys_run login_a_again sys_a =
     \<lparr>handler_of =
        [10 \<mapsto> \<lparr>self_writer = 10, self_client_id = Some 1, self_email = Some ''a@x'',
                  self_transaction_id = 0, self_authenticated = True,
                  self_protocol_version = None\<rparr>,
         11 \<mapsto> \<lparr>self_writer = 11, self_client_id = Some 2, self_email = Some ''a@x'',
                  self_transaction_id = 0, self_authenticated = True,
                  self_protocol_version = None\<rparr>],
      shared =
        \<lparr>client_manager =
           \<lparr>clients = [(1, \<lparr>id_of = 1, email = ''a@x'', writer = 10, status = ''NLN'',
                            connected_at = 0, last_activity = 0\<rparr>),
                       (2, \<lparr>id_of = 2, email = ''a@x'', writer = 11, status = ''NLN'',
                            connected_at = 0, last_activity = 0\<rparr>)],
            email_to_client = [''a@x'' \<mapsto> 2], next_client_id = 3\<rparr>,
         db_manager = db0,
         written = (\<lambda>w. [])
           (10 := [''USR 3 S nonce'' @ CRLF, ''USR 4 OK a@x a@x 1 0'' @ CRLF],
            11 := [''USR 3 S nonce'' @ CRLF, ''USR 4 OK a@x a@x 1 0'' @ CRLF]),
         closed = {}\<rparr>\<rparr>"
  by (simp add: sys_run_def login_a_again_def sys_a_def writer_in_use_def
      handle_line_def strip_def isspace_def process_command_def
      handle_usr_def MSNPProtocolHandler_init_def send_response_def rt0_def
      get_user_by_email_def db0_def add_client_def CRLF_def fun_upd_twist del: One_nat_def)

text \<open>
  C3, as the claim states it, fails. Two connections log in as \<open>a@x\<close> one after the
  other. Afterwards the registry holds both sessions under that identity, the first
  writer has been given its own two replies and no \<open>OUT OTH\<close>, and it is not closed.
\<close>

theorem second_login_displaces_nothing_counterexample:
  "map (email \<circ> snd) (clients (client_manager (shared (sys_run (login_a @ login_a_again) sys0))))
     = [''a@x'', ''a@x'']
   \<and> map (writer \<circ> snd) (clients (client_manager (shared (sys_run (login_a @ login_a_again) sys0))))
     = [10, 11]
   \<and> written (shared (sys_run (login_a @ login_a_again) sys0)) 10
     = [''USR 3 S nonce'' @ CRLF, ''USR 4 OK a@x a@x 1 0'' @ CRLF]
   \<and> (''OUT OTH'' @ CRLF) \<notin> set (written (shared (sys_run (login_a @ login_a_again) sys0)) 10)
   \<and> 10 \<notin> closed (shared (sys_run (login_a @ login_a_again) sys0))"
  by (simp add: sys_run_append login_a_state login_a_again_state CRLF_def)

text \<open>
  C3, amended. \<open>email_to_client\<close> names at most one session per identity, the latest
  to authenticate as it. When phase 2 of \<open>USR\<close> succeeds for identity \<open>e\<close>, the new
  session is appended to \<open>clients\<close> under a fresh id with status \<open>NLN\<close> and
  \<open>email_to_client\<close> is pointed at it; every earlier entry of \<open>clients\<close>, one for \<open>e\<close>
  included, stays where it was, nothing is written to any other writer and no writer is
  closed.
\<close>

theorem usr_installs_without_displacing:
  assumes "4 \<le> length parts" "parts ! 2 = ''S''" "self_email h = Some e" "e \<noteq> []"
    and "get_user_by_email (db_manager wd) e = Some u"
    and "ids_below (client_manager wd)"
  shows
    "(case handle_usr rt h wd parts t of (h', wd') \<Rightarrow>
        self_authenticated h'
        \<and> self_client_id h' = Some (next_client_id (client_manager wd))
        \<and> email_to_client (client_manager wd') e = Some (next_client_id (client_manager wd))
        \<and> clients (client_manager wd') =
            clients (client_manager wd) @
              [(next_client_id (client_manager wd),
                \<lparr>id_of = next_client_id (client_manager wd), email = e,
                 writer = self_writer h, status = ''NLN'',
                 connected_at = clock rt, last_activity = clock rt\<rparr>)]
        \<and> written wd' (self_writer h) =
            written wd (self_writer h)
              @ [''USR '' @ t @ '' OK '' @ e @ '' '' @ e @ '' 1 0'' @ CRLF]
        \<and> (\<forall>w. w \<noteq> self_writer h \<longrightarrow> written wd' w = written wd w)
        \<and> closed wd' = closed wd)"
  using assms
  by (simp add: handle_usr_def add_client_appends send_response_def)

subsection \<open>Contact synchronisation\<close>

lemma fold_send_response:
  "fold (\<lambda>c. send_response h (f c)) rows wd =
     wd\<lparr>written := (written wd)(self_writer h := written wd (self_writer h) @ map f rows)\<rparr>"
  by (induction rows arbitrary: wd) (simp_all add: send_response_def write_to_def)

lemma fold_send_response_srv:
  "fold (\<lambda>c. send_response_srv ci (f c)) rows srv =
     (if ci_socket ci \<in> sock_closed srv then srv
      else srv\<lparr>sock_sent :=
                 (sock_sent srv)(ci_socket ci := sock_sent srv (ci_socket ci) @ map f rows)\<rparr>)"
  by (induction rows arbitrary: srv) (simp_all add: send_response_srv_def sock_send_def)







subsection \<open>Logging out\<close>

lemma strip_OUT: "strip (''OUT'' @ CRLF) = ''OUT''"
  by (simp add: strip_def CRLF_def isspace_def)

text \<open>
  The threaded server honours the bare line: it echoes \<open>OUT\<close> and closes the socket.
\<close>

lemma out_honoured_by_threaded_server:
  "process_msnp_command rt ci srv (strip (''OUT'' @ CRLF)) =
     (ci, (sock_send (ci_socket ci) (''OUT'' @ CRLF) srv)
            \<lparr>sock_closed := insert (ci_socket ci) (sock_closed srv)\<rparr>)"
  unfolding strip_OUT
  by (simp add: process_msnp_command_def split_ws_def isspace_def upper_def upper_char_def
      handle_out_command_def send_response_srv_def Let_def)

text \<open>
  C7. The asynchronous handler does not honour the bare line \<open>OUT\<close>: in every state of
  the session the line has one part only, \<open>process_command\<close> returns before it looks at
  the verb, nothing is written, nothing is closed and the session stays in the registry.
\<close>

theorem bare_out_is_dropped:
  "handle_line rt h wd (''OUT'' @ CRLF) = Some (h, wd)"
  unfolding handle_line_def strip_OUT by (simp add: process_command_def)

subsection \<open>Adding and removing a contact\<close>

lemma add_contact_fresh:
  "\<not> write_locked d \<Longrightarrow> \<not> (\<exists>r \<in> set (contacts d). contact_key (Some own) peer lt r) \<Longrightarrow>
     add_contact d (Some own) peer nick lt =
       Some (True, d\<lparr>contacts := contacts d @
               [\<lparr>owner_email = own, contact_email = peer, nickname = Some nick,
                 list_type = Some lt\<rparr>]\<rparr>)"
  by (simp add: add_contact_def)




lemma locked_store_raises:
  "write_locked d \<Longrightarrow> add_contact d owner peer nick lt = None"
  "write_locked d \<Longrightarrow> remove_contact d owner peer lt = None"
  by (simp_all add: add_contact_def remove_contact_def)



text \<open>
  In the asynchronous server the \<open>ADD\<close> of a pair that is stored is answered like any
  other, and leaves the store locked; the \<open>REM\<close> that follows raises, so the connection
  is closed without a reply to it, and no row is deleted.
\<close>

lemma add_stored_then_rem_ends_connection:
  "lines_since (shared sys_a)
       (shared (sys_run [Line rt0 10 (''ADD 5 FL c@x C'' @ CRLF),
                         Line rt0 10 (''REM 6 FL c@x'' @ CRLF)] sys_a)) 10
     = [''ADD 5 FL c@x C'' @ CRLF]
   \<and> handler_of (sys_run [Line rt0 10 (''ADD 5 FL c@x C'' @ CRLF),
                          Line rt0 10 (''REM 6 FL c@x'' @ CRLF)] sys_a) 10 = None
   \<and> closed (shared (sys_run [Line rt0 10 (''ADD 5 FL c@x C'' @ CRLF),
                              Line rt0 10 (''REM 6 FL c@x'' @ CRLF)] sys_a)) = {10}
   \<and> db_manager (shared (sys_run [Line rt0 10 (''ADD 5 FL c@x C'' @ CRLF),
                                  Line rt0 10 (''REM 6 FL c@x'' @ CRLF)] sys_a))
       = db0\<lparr>write_locked := True\<rparr>"
proof -
  have 1: "sys_step (Line rt0 10 (''ADD 5 FL c@x C'' @ CRLF)) sys_a =
     sys_a\<lparr>shared := (shared sys_a)
             \<lparr>db_manager := db0\<lparr>write_locked := True\<rparr>,
              written := (written (shared sys_a))
                 (10 := written (shared sys_a) 10 @ [''ADD 5 FL c@x C'' @ CRLF])\<rparr>\<rparr>"
    by (simp add: sys_a_def handle_line_def strip_def isspace_def
      process_command_def handle_add_def add_contact_def
      contact_key_def db0_def send_response_def write_to_def CRLF_def Let_def)
  show ?thesis
    unfolding sys_run_def fold_simps 1
    by (simp add: lines_since_def sys_a_def handle_line_def strip_def isspace_def
      process_command_def handle_rem_def remove_contact_def
      close_connection_def disconnect_client_def CRLF_def Let_def)
qed



subsection \<open>Presence fan-out\<close>

lemma fold_sock_send_sent:
  "sock_sent (fold (\<lambda>c. sock_send (ci_socket c) m) xs srv) sk =
     sock_sent srv sk @
       (if sk \<in> sock_closed srv then []
        else replicate (length (filter (\<lambda>c. ci_socket c = sk) xs)) m)"
  by (induction xs arbitrary: srv) (auto simp: replicate_append_same)


lemma broadcast_sent:
  "sock_sent (broadcast_status_change_srv ci srv) sk =
     sock_sent srv sk @
       (if sk \<in> sock_closed srv then []
        else replicate (length (filter (\<lambda>c. ci_socket c = sk) (broadcast_targets srv ci)))
               (status_message srv ci))"
  by (simp add: broadcast_status_change_srv_def fold_sock_send_sent)

lemma broadcast_targets_set:
  "set (broadcast_targets srv ci) =
     {c. \<exists>i. (i, c) \<in> set (srv_clients srv) \<and> i \<noteq> ci_id ci \<and> ci_authenticated c}"
  by (auto simp: broadcast_targets_def image_iff)

lemma chg_sent:
  assumes "ci_authenticated ci" "3 \<le> length parts"
  shows "sock_sent (snd (handle_chg_command ci srv parts)) sk =
     sock_sent srv sk @
       (if sk \<in> sock_closed srv then []
        else (if sk = ci_socket ci then [''CHG '' @ parts ! 1 @ '' '' @ parts ! 2 @ CRLF] else [])
             @ replicate
                 (length (filter (\<lambda>c. ci_socket c = sk) (broadcast_targets srv ci)))
                 (status_message srv (ci\<lparr>ci_status := parts ! 2\<rparr>)))"
  using assms
  by (simp add: handle_chg_command_def Let_def broadcast_sent send_response_srv_def
      broadcast_targets_def status_message_def get_display_name_def)

lemma chg_reaches_authenticated:
  assumes "ci_authenticated ci" "3 \<le> length parts"
    and "(i, c) \<in> set (srv_clients srv)" "i \<noteq> ci_id ci" "ci_authenticated c"
    and "ci_socket c \<notin> sock_closed srv"
  shows "status_message srv (ci\<lparr>ci_status := parts ! 2\<rparr>)
           \<in> set (new_on srv (snd (handle_chg_command ci srv parts)) (ci_socket c))"
proof -
  have "c \<in> set (broadcast_targets srv ci)"
    using assms(3-5) by (auto simp: broadcast_targets_set)
  then have "filter (\<lambda>x. ci_socket x = ci_socket c) (broadcast_targets srv ci) \<noteq> []"
    by (auto simp: filter_empty_conv)
  then have "0 < length (filter (\<lambda>x. ci_socket x = ci_socket c) (broadcast_targets srv ci))"
    by simp
  then show ?thesis
    using assms(6) by (simp add: new_on_def chg_sent [OF assms(1,2)])
qed

lemma chg_reaches_no_other:
  assumes "ci_authenticated ci" "3 \<le> length parts"
    and "sk \<noteq> ci_socket ci"
    and "\<not> (\<exists>(i, c) \<in> set (srv_clients srv).
              i \<noteq> ci_id ci \<and> ci_authenticated c \<and> ci_socket c = sk)"
  shows "new_on srv (snd (handle_chg_command ci srv parts)) sk = []"
proof -
  have "filter (\<lambda>x. ci_socket x = sk) (broadcast_targets srv ci) = []"
    using assms(4) by (auto simp: filter_empty_conv broadcast_targets_set)
  then show ?thesis
    using assms(3) by (simp add: new_on_def chg_sent [OF assms(1,2)])
qed

lemma chg_ignores_contacts:
  assumes "ci_authenticated ci" "3 \<le> length parts"
  shows "sock_sent (snd (handle_chg_command ci (srv\<lparr>tbl_contacts := cs\<rparr>) parts)) sk
           = sock_sent (snd (handle_chg_command ci srv parts)) sk"
  by (simp add: chg_sent [OF assms] broadcast_targets_def status_message_def
      get_display_name_def)

text \<open>
  C4, as the claim states it, fails. In the threaded server \<open>aquaboxs34\<close> has nobody on
  a reverse list, so \<open>testuser\<close> is not an interested peer; yet when \<open>aquaboxs34\<close>
  changes to \<open>BSY\<close> the presence line is sent on the socket of \<open>testuser\<close>.
\<close>

theorem fanout_reaches_uninterested_counterexample:
  "\<not> interested srv0 ''aquaboxs34@hotmail.com'' ''testuser@hotmail.com''
   \<and> new_on srv0 (srv_step (Recv srv_rt0 1 (''CHG 7 BSY'' @ CRLF)) srv0) 22
       = [''NLN BSY aquaboxs34@hotmail.com AquaBoxs'' @ CRLF]"
  by (simp add: interested_def list_of_def user_id_of_def srv0_def srv_start_def new_on_def
      recv_def strip_def process_msnp_command_def split_ws_def isspace_def upper_def
      upper_char_def handle_chg_command_def aqua_def tester_def guest_def
      send_response_srv_def broadcast_status_change_srv_def broadcast_targets_def
      status_message_def get_display_name_def fmt_def CRLF_def)

text \<open>
  C4, amended. For every presence change by an authenticated session \<open>U\<close> of the
  threaded server (a \<open>CHG\<close> command of at least three parts), the presence line about
  \<open>U\<close> is sent on the open socket of every other connection that is authenticated, and
  nothing is sent on a socket that is neither such a connection's nor the own one of
  \<open>U\<close>; the contact lists have no part in it: with any other contacts table the same
  is sent on every socket.
\<close>

theorem presence_goes_to_every_authenticated_session:
  assumes "ci_authenticated ci" "3 \<le> length parts"
  shows
   "(\<forall>(i, c) \<in> set (srv_clients srv).
       i \<noteq> ci_id ci \<and> ci_authenticated c \<and> ci_socket c \<notin> sock_closed srv \<longrightarrow>
         status_message srv (ci\<lparr>ci_status := parts ! 2\<rparr>)
           \<in> set (new_on srv (snd (handle_chg_command ci srv parts)) (ci_socket c)))
    \<and> (\<forall>sk. sk \<noteq> ci_socket ci
          \<and> \<not> (\<exists>(i, c) \<in> set (srv_clients srv).
                  i \<noteq> ci_id ci \<and> ci_authenticated c \<and> ci_socket c = sk) \<longrightarrow>
         new_on srv (snd (handle_chg_command ci srv parts)) sk = [])
    \<and> (\<forall>cs sk. sock_sent (snd (handle_chg_command ci (srv\<lparr>tbl_contacts := cs\<rparr>) parts)) sk
                  = sock_sent (snd (handle_chg_command ci srv parts)) sk)"
  using chg_reaches_authenticated [OF assms] chg_reaches_no_other [OF assms]
    chg_ignores_contacts [OF assms]
  by blast

subsection \<open>Error lines\<close>

lemma digit_first_simps [simp]:
  "digit_first [] = False"
  "digit_first (c # cs) = (c \<in> set ''0123456789'')"
  by (simp_all add: digit_first_def)






















lemma store_message_simps [simp]:
  "sock_sent (store_message f t m srv) = sock_sent srv"
  "sock_closed (store_message f t m srv) = sock_closed srv"
  "srv_clients (store_message f t m srv) = srv_clients srv"
  "tbl_users (store_message f t m srv) = tbl_users srv"
  by (simp_all add: store_message_def)














subsection \<open>Presence after login\<close>

lemma fold_write_to_cm [simp]:
  "client_manager (fold (\<lambda>(w, l). write_to w l) ds wd) = client_manager wd"
  by (induction ds arbitrary: wd) (auto simp: case_prod_unfold)

lemma fold_write_to_cm' [simp]:
  "client_manager (fold (\<lambda>p. write_to (fst p) (snd p)) ds wd) = client_manager wd"
  by (induction ds arbitrary: wd) auto

lemma fold_send_cm [simp]:
  "client_manager (fold (\<lambda>c. send_response h (f c)) rows wd) = client_manager wd"
  by (simp add: fold_send_response)

lemma send_response_cm [simp]:
  "client_manager (send_response h s wd) = client_manager wd"
  by (simp add: send_response_def)

lemma send_error_cm [simp]:
  "client_manager (send_error h t c wd) = client_manager wd"
  by (simp add: send_error_def)

lemma fst_add_client [simp]: "fst (add_client t w e m) = next_client_id m"
  by (simp add: add_client_def Let_def)



lemma next_add_client [simp]:
  "next_client_id (snd (add_client t w e m)) = next_client_id m + 1"
  by (simp add: add_client_def Let_def)



lemma next_update_status [simp]:
  "next_client_id (update_client_status t c st m) = next_client_id m"
  by (simp add: update_client_status_def split: option.splits)


lemma next_disconnect [simp]:
  "next_client_id (disconnect_client w m) = next_client_id m"
  by (simp add: disconnect_client_def split: option.splits prod.splits)














lemma reg_ok_sys0: "reg_ok sys0"
  by (simp add: reg_ok_def sys0_def world0_def ClientManager_init_def)



lemma fold_send_srv_rest [simp]:
  "srv_clients (fold (\<lambda>c. send_response_srv ci (f c)) rows srv) = srv_clients srv"
  "client_counter (fold (\<lambda>c. send_response_srv ci (f c)) rows srv) = client_counter srv"
  by (simp_all add: fold_send_response_srv)







section \<open>Instances\<close>

text \<open>Each theorem with a hypothesis, used at a concrete state that meets it.\<close>

theorem ver_reply_first_supported_witness:
  "3 \<le> length [''VER'', ''1'', ''MSNP8'', ''MSNP7'', ''MSNP3'']
   \<and> set (drop 2 [''VER'', ''1'', ''MSNP8'', ''MSNP7'', ''MSNP3'']) \<inter> set supported_versions \<noteq> {}
   \<and> set (drop 2 [''VER'', ''1'', ''MSNP8'', ''MSNP7'', ''MSNP3'']) \<inter> set supported_versions_srv \<noteq> {}
   \<and> set (drop 2 [''VER'', ''1'', ''MSNP99'']) \<inter> set supported_versions = {}
   \<and> set (drop 2 [''VER'', ''1'', ''MSNP99'']) \<inter> set supported_versions_srv = {}
   \<and> ci_socket guest \<notin> sock_closed srv0
   \<and> written (snd (handle_ver (MSNPProtocolHandler_init 10) world0
                     [''VER'', ''1'', ''MSNP8'', ''MSNP7'', ''MSNP3''] ''1'')) 10
       = [''VER 1 MSNP8'' @ CRLF]
   \<and> new_on srv0 (snd (handle_ver_command guest srv0
                          [''VER'', ''1'', ''MSNP8'', ''MSNP7'', ''MSNP3''])) 23
       = [''VER 1 MSNP7'' @ CRLF]
   \<and> written (snd (handle_ver (MSNPProtocolHandler_init 10) world0
                     [''VER'', ''1'', ''MSNP99''] ''1'')) 10
       = [''VER 1 MSNP8'' @ CRLF]
   \<and> new_on srv0 (snd (handle_ver_command guest srv0 [''VER'', ''1'', ''MSNP99''])) 23
       = [''VER 1 MSNP7'' @ CRLF]"
  using ver_reply_first_supported
          [where h = "MSNPProtocolHandler_init 10" and wd = world0
             and parts = "[''VER'', ''1'', ''MSNP8'', ''MSNP7'', ''MSNP3'']" and t = "''1''"
             and ci = guest and srv = srv0]
        ver_reply_first_supported
          [where h = "MSNPProtocolHandler_init 10" and wd = world0
             and parts = "[''VER'', ''1'', ''MSNP99'']" and t = "''1''"
             and ci = guest and srv = srv0]
  by (simp add: supported_versions_def supported_versions_srv_def guest_def srv0_def
      srv_start_def handle_ver_def handle_ver_command_def select_version_def
      send_response_def send_response_srv_def MSNPProtocolHandler_init_def world0_def
      new_on_def CRLF_def)

theorem usr_installs_without_displacing_witness:
  "4 \<le> length [''USR'', ''4'', ''S'', ''dummy_hash'']
   \<and> [''USR'', ''4'', ''S'', ''dummy_hash''] ! 2 = ''S''
   \<and> self_email ((MSNPProtocolHandler_init 11)\<lparr>self_email := Some ''a@x''\<rparr>) = Some ''a@x''
   \<and> get_user_by_email (db_manager (shared sys_a)) ''a@x''
       = Some \<lparr>user_email = ''a@x'', password = ''p'', display_name = Some ''A''\<rparr>
   \<and> ids_below (client_manager (shared sys_a))
   \<and> map (email \<circ> snd)
        (clients (client_manager (snd (handle_usr rt0
           ((MSNPProtocolHandler_init 11)\<lparr>self_email := Some ''a@x''\<rparr>) (shared sys_a)
           [''USR'', ''4'', ''S'', ''dummy_hash''] ''4''))))
       = [''a@x'', ''a@x'']"
proof -
  have 1: "4 \<le> length [''USR'', ''4'', ''S'', ''dummy_hash'']" by simp
  have 2: "[''USR'', ''4'', ''S'', ''dummy_hash''] ! 2 = ''S''" by simp
  have 3: "self_email ((MSNPProtocolHandler_init 11)\<lparr>self_email := Some ''a@x''\<rparr>) = Some ''a@x''"
    by simp
  have 4: "''a@x'' \<noteq> []" by simp
  have 5: "get_user_by_email (db_manager (shared sys_a)) ''a@x''
       = Some \<lparr>user_email = ''a@x'', password = ''p'', display_name = Some ''A''\<rparr>"
    by (simp add: sys_a_def db0_def get_user_by_email_def)
  have 6: "ids_below (client_manager (shared sys_a))"
    by (simp add: sys_a_def ids_below_def)
  show ?thesis
    using usr_installs_without_displacing [OF 1 2 3 4 5 6, where rt = rt0 and t = "''4''"] 1 2 3 5 6
    by (simp add: case_prod_unfold sys_a_def)
qed

theorem presence_goes_to_every_authenticated_session_witness:
  "ci_authenticated aqua \<and> 3 \<le> length [''CHG'', ''7'', ''BSY'']
   \<and> (2, tester) \<in> set (srv_clients srv0) \<and> 2 \<noteq> ci_id aqua \<and> ci_authenticated tester
   \<and> ci_socket tester \<notin> sock_closed srv0
   \<and> status_message srv0 (aqua\<lparr>ci_status := [''CHG'', ''7'', ''BSY''] ! 2\<rparr>)
        \<in> set (new_on srv0 (snd (handle_chg_command aqua srv0 [''CHG'', ''7'', ''BSY''])) 22)
   \<and> new_on srv0 (snd (handle_chg_command aqua srv0 [''CHG'', ''7'', ''BSY''])) 23 = []"
proof -
  have 1: "ci_authenticated aqua" by (simp add: aqua_def)
  have 2: "3 \<le> length [''CHG'', ''7'', ''BSY'']" by simp
  have 3: "(2, tester) \<in> set (srv_clients srv0)" by (simp add: srv0_def)
  have 4: "2 \<noteq> ci_id aqua \<and> ci_authenticated tester \<and> ci_socket tester \<notin> sock_closed srv0"
    by (simp add: aqua_def tester_def srv0_def srv_start_def)
  have 5: "23 \<noteq> ci_socket aqua
     \<and> \<not> (\<exists>(i, c) \<in> set (srv_clients srv0). i \<noteq> ci_id aqua \<and> ci_authenticated c \<and> ci_socket c = 23)"
    by (simp add: aqua_def tester_def guest_def srv0_def)
  have 6: "ci_socket tester = 22" by (simp add: tester_def)
  from presence_goes_to_every_authenticated_session [OF 1 2, where srv = srv0] 3 4 5 6
  show ?thesis
    using 1 2 by fastforce
qed





end
